theory Spec2Isabelle
  imports Main
begin

section \<open>Python values seen by the tool server\<close>

text \<open>
  \<^verbatim>\<open>server.py\<close> inspects the values it handles only through \<^verbatim>\<open>isinstance\<close> tests and
  through calls of their methods (\<^verbatim>\<open>o.item()\<close>, \<^verbatim>\<open>float(o)\<close>, \<^verbatim>\<open>str(o)\<close>,
  \<^verbatim>\<open>o.isoformat()\<close>, \<^verbatim>\<open>o.tolist()\<close>). A value is therefore modelled by the class family
  the \<^verbatim>\<open>isinstance\<close> tests put it in, together with what each of those calls does on
  it: return a value (\<open>Inr\<close>) or raise (\<open>Inl\<close>).

  An exception is an instance of \<^verbatim>\<open>Exception\<close>, given by its class name and its
  \<^verbatim>\<open>str\<close>. \<^verbatim>\<open>KeyboardInterrupt\<close> and \<^verbatim>\<open>SystemExit\<close>, which no \<^verbatim>\<open>except Exception\<close>
  clause of the source catches, are outside the model.
\<close>

datatype pyexn = PyExn string string

definition RecursionError :: pyexn where
  "RecursionError = PyExn ''RecursionError'' ''maximum recursion depth exceeded''"

fun exn_str :: "pyexn \<Rightarrow> string" where
  "exn_str (PyExn cls msg) = msg"

text \<open>
  A native \<^verbatim>\<open>float\<close> is carried around, never computed with: a finite double is
  \<open>FNum m e\<close> (standing for \<open>m * 2 ^ e\<close>), the others are the infinities and NaN.
\<close>

datatype pyfloat = FNum int int | FInf bool | FNaN

datatype pyval =
    PNone
  | PStr string
  | PBool bool
  | PInt int
  | PFloat pyfloat
  | NpScalar "pyexn + pyval" "pyexn + pyfloat"
  | PDecimal "pyexn + string"
  | PDatetime "pyexn + string" "pyexn + string"
  | PDict "(pyval \<times> pyval) list"
  | PList "pyval list"
  | PTuple "pyval list"
  | PSet "pyval list"
  | PObj "(pyexn + pyval) option" "pyexn + string"

text \<open>
  \<^item> \<open>PStr\<close>, \<open>PBool\<close>, \<open>PInt\<close>, \<open>PFloat\<close>: instances of \<^verbatim>\<open>str\<close>, \<^verbatim>\<open>bool\<close>, \<^verbatim>\<open>int\<close>,
    \<^verbatim>\<open>float\<close> (an instance of a subclass, such as \<^verbatim>\<open>numpy.float64\<close>, which is a
    \<^verbatim>\<open>float\<close>, is among them).
  \<^item> \<open>NpScalar item flt\<close>: an instance of \<^verbatim>\<open>np.integer\<close>, \<^verbatim>\<open>np.floating\<close>, \<^verbatim>\<open>np.bool_\<close>
    or \<^verbatim>\<open>np.number\<close> that is not one of the above; \<open>item\<close> is what \<^verbatim>\<open>o.item()\<close> does,
    \<open>flt\<close> what \<^verbatim>\<open>float(o)\<close> does.
  \<^item> \<open>PDecimal s\<close>: a \<^verbatim>\<open>decimal.Decimal\<close>; \<open>s\<close> is what \<^verbatim>\<open>str(o)\<close> does.
  \<^item> \<open>PDatetime isofmt s\<close>: an instance of \<^verbatim>\<open>datetime\<close>, \<^verbatim>\<open>date\<close>, \<^verbatim>\<open>time\<close> or
    \<^verbatim>\<open>pandas.Timestamp\<close> (\<^verbatim>\<open>pandas.NaT\<close> is one: its class derives from \<^verbatim>\<open>datetime\<close>);
    \<open>isofmt\<close> is what \<^verbatim>\<open>o.isoformat()\<close> does, \<open>s\<close> what \<^verbatim>\<open>str(o)\<close> does.
  \<^item> \<open>PDict items\<close>: a \<^verbatim>\<open>dict\<close>, as the list of its items in insertion order.
  \<^item> \<open>PList\<close>, \<open>PTuple\<close>, \<open>PSet\<close>: a \<^verbatim>\<open>list\<close>, \<^verbatim>\<open>tuple\<close> or \<^verbatim>\<open>set\<close>, as the list of its
    elements in iteration order.
  \<^item> \<open>PObj tolist s\<close>: any other object (a native \<^verbatim>\<open>complex\<close>, a
    \<^verbatim>\<open>timedelta\<close>, an array, a data frame, \<^verbatim>\<open>pandas.NA\<close>). \<open>tolist\<close> is \<open>None\<close> when the object has no
    attribute \<^verbatim>\<open>tolist\<close>, and otherwise what \<^verbatim>\<open>o.tolist()\<close> does; \<open>s\<close> is what
    \<^verbatim>\<open>str(o)\<close> does.
\<close>

section \<open>The result normalizer\<close>

text \<open>
  \<^verbatim>\<open>_make_json_serializable\<close> (server.py, lines 152 to 202), one test after the other as
  the source has them.

  Two things the function depends on are parameters of the model:
  \<^item> \<open>isna o\<close> is the outcome of the test \<^verbatim>\<open>if _pd.isna(o):\<close>, that is, of calling
    \<^verbatim>\<open>pandas.isna\<close> and taking the truth value of its result: \<open>Inr b\<close> when that gives
    \<open>b\<close>, \<open>Inl e\<close> when either step raises (the truth value of an array with several
    elements raises \<^verbatim>\<open>ValueError\<close>).
  \<^item> the number of nested activations of the function the interpreter still allows.
    Python bounds the depth of its call stack (\<^verbatim>\<open>sys.getrecursionlimit()\<close>, 1000 unless
    changed) and raises \<^verbatim>\<open>RecursionError\<close>, an \<^verbatim>\<open>Exception\<close>, at the call that
    would exceed it. \<open>make_json_serializable isna d o\<close> is a call made when \<open>d\<close>
    activations are left.
\<close>

text \<open>The fallback: \<^verbatim>\<open>str(o)\<close>, and \<^verbatim>\<open>None\<close> if that raises (lines 199 to 202).\<close>

definition str_or_none :: "pyexn + string \<Rightarrow> pyval" where
  "str_or_none s = (case s of Inr t \<Rightarrow> PStr t | Inl _ \<Rightarrow> PNone)"

text \<open>The first test (line 155): \<^verbatim>\<open>o is None or isinstance(o, (str, bool, int, float))\<close>.\<close>

definition is_primitive :: "pyval \<Rightarrow> bool" where
  "is_primitive v = (case v of
      PNone \<Rightarrow> True | PStr _ \<Rightarrow> True | PBool _ \<Rightarrow> True | PInt _ \<Rightarrow> True | PFloat _ \<Rightarrow> True
    | _ \<Rightarrow> False)"

fun make_json_serializable :: "(pyval \<Rightarrow> pyexn + bool) \<Rightarrow> nat \<Rightarrow> pyval \<Rightarrow> pyexn + pyval"
  and serialize_items :: "(pyval \<Rightarrow> pyexn + bool) \<Rightarrow> nat \<Rightarrow> (pyval \<times> pyval) list
        \<Rightarrow> pyexn + (pyval \<times> pyval) list"
  and serialize_elems :: "(pyval \<Rightarrow> pyexn + bool) \<Rightarrow> nat \<Rightarrow> pyval list \<Rightarrow> pyexn + pyval list"
where
  "make_json_serializable isna 0 v = Inl RecursionError"
| "make_json_serializable isna (Suc d) v =
    (if is_primitive v then Inr v
     else case v of
       NpScalar item flt \<Rightarrow>
         (case item of
            Inr r \<Rightarrow> Inr r
          | Inl _ \<Rightarrow> (case flt of Inr f \<Rightarrow> Inr (PFloat f) | Inl e \<Rightarrow> Inl e))
     | PDecimal s \<Rightarrow> (case s of Inr t \<Rightarrow> Inr (PStr t) | Inl e \<Rightarrow> Inl e)
     | _ \<Rightarrow>
       if isna v = Inr True then Inr PNone
       else case v of
         PDatetime isofmt s \<Rightarrow>
           (case isofmt of
              Inr t \<Rightarrow> Inr (PStr t)
            | Inl _ \<Rightarrow> (case s of Inr t \<Rightarrow> Inr (PStr t) | Inl e \<Rightarrow> Inl e))
       | PDict kvs \<Rightarrow>
           (case serialize_items isna d kvs of Inr kvs' \<Rightarrow> Inr (PDict kvs') | Inl e \<Rightarrow> Inl e)
       | PList xs \<Rightarrow>
           (case serialize_elems isna d xs of Inr ys \<Rightarrow> Inr (PList ys) | Inl e \<Rightarrow> Inl e)
       | PTuple xs \<Rightarrow>
           (case serialize_elems isna d xs of Inr ys \<Rightarrow> Inr (PList ys) | Inl e \<Rightarrow> Inl e)
       | PSet xs \<Rightarrow>
           (case serialize_elems isna d xs of Inr ys \<Rightarrow> Inr (PList ys) | Inl e \<Rightarrow> Inl e)
       | PObj tolist s \<Rightarrow>
           (case tolist of
              Some (Inr l) \<Rightarrow>
                (case make_json_serializable isna d l of
                   Inr r \<Rightarrow> Inr r
                 | Inl _ \<Rightarrow> Inr (str_or_none s))
            | _ \<Rightarrow> Inr (str_or_none s)))"
| "serialize_items isna d [] = Inr []"
| "serialize_items isna d ((k, v) # kvs) =
    (case make_json_serializable isna d v of
       Inl e \<Rightarrow> Inl e
     | Inr v' \<Rightarrow>
        (case serialize_items isna d kvs of Inl e \<Rightarrow> Inl e | Inr kvs' \<Rightarrow> Inr ((k, v') # kvs')))"
| "serialize_elems isna d [] = Inr []"
| "serialize_elems isna d (x # xs) =
    (case make_json_serializable isna d x of
       Inl e \<Rightarrow> Inl e
     | Inr y \<Rightarrow>
        (case serialize_elems isna d xs of Inl e \<Rightarrow> Inl e | Inr ys \<Rightarrow> Inr (y # ys)))"


subsection \<open>Shapes of values\<close>

text \<open>
  A NormalizedValue of the specification: null, a boolean, a number, a string, a list of
  NormalizedValues, or a mapping from strings to NormalizedValues.
\<close>

fun normalized :: "pyval \<Rightarrow> bool"
  and normalized_items :: "(pyval \<times> pyval) list \<Rightarrow> bool"
  and normalized_elems :: "pyval list \<Rightarrow> bool"
where
  "normalized PNone = True"
| "normalized (PStr _) = True"
| "normalized (PBool _) = True"
| "normalized (PInt _) = True"
| "normalized (PFloat _) = True"
| "normalized (PList xs) = normalized_elems xs"
| "normalized (PDict kvs) = normalized_items kvs"
| "normalized (NpScalar _ _) = False"
| "normalized (PDecimal _) = False"
| "normalized (PDatetime _ _) = False"
| "normalized (PTuple _) = False"
| "normalized (PSet _) = False"
| "normalized (PObj _ _) = False"
| "normalized_items [] = True"
| "normalized_items ((k, v) # kvs) =
     ((case k of PStr _ \<Rightarrow> True | _ \<Rightarrow> False) \<and> normalized v \<and> normalized_items kvs)"
| "normalized_elems [] = True"
| "normalized_elems (x # xs) = (normalized x \<and> normalized_elems xs)"



text \<open>
  Every mapping key in the value is a string, and every numeric-library scalar in it
  has an \<^verbatim>\<open>item()\<close> that returns a native null, boolean, number or string (or raises).
  Both go through the result of \<^verbatim>\<open>o.tolist()\<close>, which the function converts as well.
\<close>

fun plain :: "pyval \<Rightarrow> bool"
  and plain_items :: "(pyval \<times> pyval) list \<Rightarrow> bool"
  and plain_elems :: "pyval list \<Rightarrow> bool"
where
  "plain (NpScalar item flt) = (case item of Inr r \<Rightarrow> is_primitive r | Inl _ \<Rightarrow> True)"
| "plain (PDict kvs) = plain_items kvs"
| "plain (PList xs) = plain_elems xs"
| "plain (PTuple xs) = plain_elems xs"
| "plain (PSet xs) = plain_elems xs"
| "plain (PObj tolist s) = (case tolist of Some (Inr l) \<Rightarrow> plain l | _ \<Rightarrow> True)"
| "plain PNone = True"
| "plain (PStr _) = True"
| "plain (PBool _) = True"
| "plain (PInt _) = True"
| "plain (PFloat _) = True"
| "plain (PDecimal _) = True"
| "plain (PDatetime _ _) = True"
| "plain_items [] = True"
| "plain_items ((k, v) # kvs) =
     ((case k of PStr _ \<Rightarrow> True | _ \<Rightarrow> False) \<and> plain v \<and> plain_items kvs)"
| "plain_elems [] = True"
| "plain_elems (x # xs) = (plain x \<and> plain_elems xs)"

subsection \<open>Particular values\<close>

text \<open>
  \<^verbatim>\<open>Decimal("12.345")\<close>, whose \<^verbatim>\<open>str\<close> is \<^verbatim>\<open>12.345\<close>; \<^verbatim>\<open>date(2024, 1, 15)\<close>, whose
  \<^verbatim>\<open>isoformat()\<close> and \<^verbatim>\<open>str\<close> are \<^verbatim>\<open>2024-01-15\<close>; \<^verbatim>\<open>pandas.NaT\<close>, whose
  \<^verbatim>\<open>isoformat()\<close> and \<^verbatim>\<open>str\<close> are \<^verbatim>\<open>NaT\<close>; \<^verbatim>\<open>pandas.NA\<close>, which has no
  \<^verbatim>\<open>tolist\<close> and whose \<^verbatim>\<open>str\<close> is \<^verbatim>\<open><NA>\<close>.
\<close>

definition decimal_12_345 :: pyval where
  "decimal_12_345 = PDecimal (Inr ''12.345'')"

definition date_2024_01_15 :: pyval where
  "date_2024_01_15 = PDatetime (Inr ''2024-01-15'') (Inr ''2024-01-15'')"

definition NaT :: pyval where
  "NaT = PDatetime (Inr ''NaT'') (Inr ''NaT'')"

definition NA :: pyval where
  "NA = PObj None (Inr ''<NA>'')"


text \<open>
  A missing-value test to run the function with. It follows \<^verbatim>\<open>pandas.isna\<close> on the
  values it is used on here: \<^verbatim>\<open>None\<close>, a float NaN, \<^verbatim>\<open>NaT\<close> and \<^verbatim>\<open>NA\<close> are missing;
  a list is turned into an array and tested element by element, and an array has a
  truth value only when it holds one element (an empty one counts as false here); any
  other scalar, a dict, a tuple, a set are not missing.
\<close>

fun sample_isna :: "pyval \<Rightarrow> pyexn + bool" where
  "sample_isna PNone = Inr True"
| "sample_isna (PFloat f) = Inr (f = FNaN)"
| "sample_isna (PList []) = Inr False"
| "sample_isna (PList [y]) = sample_isna y"
| "sample_isna (PList (y # z # zs)) =
     Inl (PyExn ''ValueError'' ''The truth value of an array with more than one element is ambiguous'')"
| "sample_isna v = Inr (v = NaT \<or> v = NA)"

subsection \<open>Missing-value tests on lists and dicts\<close>



section \<open>The tools\<close>

text \<open>
  A tool returns a \<^verbatim>\<open>dict\<close>. The collaborators of \<^verbatim>\<open>dataframe_to_json_tool\<close> and
  \<^verbatim>\<open>read_json_tool\<close> are parameters, gathered in a record:
  \<^item> \<open>run_pandas_code\<close>: \<^verbatim>\<open>core.execution.run_pandas_code\<close>, which returns a \<^verbatim>\<open>dict\<close> or
    raises, and may change the files (the submitted code runs in it);
  \<^item> \<open>is_dataframe\<close>: \<^verbatim>\<open>isinstance(df, pd.DataFrame)\<close>;
  \<^item> \<open>to_dict\<close>: \<^verbatim>\<open>df.to_dict(orient=...)\<close>;
  \<^item> \<open>pd_isna\<close> and \<open>stack_left\<close>: the two parameters of the normalizer;
  \<^item> \<open>open_w\<close>: \<^verbatim>\<open>open(output_path, 'w', encoding='utf-8')\<close>, which raises or creates
    the file empty;
  \<^item> \<open>json_dump\<close>: \<^verbatim>\<open>json.dump(data, f, indent=2, ensure_ascii=False)\<close>, giving the text
    it wrote and the exception it raised, if any;
  \<^item> \<open>format_exc\<close>: \<^verbatim>\<open>traceback.format_exc()\<close> in the handler of the exception;
  \<^item> \<open>pd_read_json\<close>: \<^verbatim>\<open>pd.read_json(file_path, orient=orient)\<close>;
  \<^item> \<open>df_shape\<close>, \<open>df_columns\<close>: \<^verbatim>\<open>df.shape\<close> and \<^verbatim>\<open>df.columns.tolist()\<close>.
\<close>

type_synonym pydict = "(pyval \<times> pyval) list"

type_synonym files = "string \<Rightarrow> string option"

record env =
  run_pandas_code :: "string \<Rightarrow> files \<Rightarrow> (pyexn + pydict) \<times> files"
  is_dataframe :: "pyval \<Rightarrow> bool"
  to_dict :: "pyval \<Rightarrow> string \<Rightarrow> pyexn + pyval"
  pd_isna :: "pyval \<Rightarrow> pyexn + bool"
  stack_left :: nat
  open_w :: "string \<Rightarrow> files \<Rightarrow> pyexn option"
  json_dump :: "pyval \<Rightarrow> string \<times> pyexn option"
  format_exc :: "pyexn \<Rightarrow> string"
  pd_read_json :: "string \<Rightarrow> string \<Rightarrow> pyexn + pyval"
  df_shape :: "pyval \<Rightarrow> pyexn + pyval"
  df_columns :: "pyval \<Rightarrow> pyexn + pyval"

text \<open>\<^verbatim>\<open>d.get(key)\<close>: the value under the key, \<^verbatim>\<open>None\<close> when the key is absent.\<close>

definition dict_get :: "pydict \<Rightarrow> string \<Rightarrow> pyval" where
  "dict_get d key = (case map_of d (PStr key) of Some v \<Rightarrow> v | None \<Rightarrow> PNone)"

definition not_a_dataframe :: pydict where
  "not_a_dataframe =
     [(PStr ''status'', PStr ''ERROR''),
      (PStr ''message'',
       PStr (''Expected a pandas.DataFrame in '' @ [CHR 0x27] @ ''result'' @ [CHR 0x27]))]"

definition success_path :: "string \<Rightarrow> pydict" where
  "success_path output_path = [(PStr ''status'', PStr ''SUCCESS''), (PStr ''path'', PStr output_path)]"

text \<open>
  The body of the \<^verbatim>\<open>try\<close> of \<^verbatim>\<open>dataframe_to_json_tool\<close> (server.py, lines 138 to 208):
  what it returns or raises, and the files it leaves.
\<close>

definition dataframe_to_json_body ::
  "env \<Rightarrow> string \<Rightarrow> string \<Rightarrow> string \<Rightarrow> files \<Rightarrow> (pyexn + pydict) \<times> files" where
  "dataframe_to_json_body E code output_path orient fs =
     (case run_pandas_code E code fs of
        (Inl e, fs1) \<Rightarrow> (Inl e, fs1)
      | (Inr result, fs1) \<Rightarrow>
          if dict_get result ''status'' = PStr ''ERROR'' then (Inr result, fs1)
          else
            let df = dict_get result ''result'' in
            if \<not> is_dataframe E df then (Inr not_a_dataframe, fs1)
            else
              (case to_dict E df orient of
                 Inl e \<Rightarrow> (Inl e, fs1)
               | Inr data \<Rightarrow>
                  (case make_json_serializable (pd_isna E) (stack_left E) data of
                     Inl e \<Rightarrow> (Inl e, fs1)
                   | Inr serializable_data \<Rightarrow>
                      (case open_w E output_path fs1 of
                         Some e \<Rightarrow> (Inl e, fs1)
                       | None \<Rightarrow>
                          (case json_dump E serializable_data of
                             (text, Some e) \<Rightarrow> (Inl e, fs1(output_path \<mapsto> text))
                           | (text, None) \<Rightarrow>
                               (Inr (success_path output_path), fs1(output_path \<mapsto> text)))))))"

text \<open>The response the \<^verbatim>\<open>except Exception as e\<close> clause of the tool builds (line 210).\<close>

definition error_with_traceback :: "env \<Rightarrow> pyexn \<Rightarrow> pydict" where
  "error_with_traceback E e =
     [(PStr ''status'', PStr ''ERROR''),
      (PStr ''message'', PStr (exn_str e)),
      (PStr ''traceback'', PStr (format_exc E e))]"

definition dataframe_to_json_tool ::
  "env \<Rightarrow> string \<Rightarrow> string \<Rightarrow> string \<Rightarrow> files \<Rightarrow> (pyexn + pydict) \<times> files" where
  "dataframe_to_json_tool E code output_path orient fs =
     (case dataframe_to_json_body E code output_path orient fs of
        (Inl e, fs') \<Rightarrow> (Inr (error_with_traceback E e), fs')
      | (Inr response, fs') \<Rightarrow> (Inr response, fs'))"




text \<open>
  Collaborators to run the tools with: every object without \<^verbatim>\<open>tolist\<close> counts as a
  data frame, which \<^verbatim>\<open>to_dict\<close> turns into the empty list of records; the output
  file can be opened and \<^verbatim>\<open>json.dump\<close> writes \<^verbatim>\<open>[]\<close>; the file to read does not
  exist. What \<^verbatim>\<open>run_pandas_code\<close> does is left open.
\<close>

definition sample_env :: "(string \<Rightarrow> files \<Rightarrow> (pyexn + pydict) \<times> files) \<Rightarrow> env" where
  "sample_env run =
     \<lparr> run_pandas_code = run,
       is_dataframe = (\<lambda>v. case v of PObj None _ \<Rightarrow> True | _ \<Rightarrow> False),
       to_dict = (\<lambda>df orient. Inr (PList [])),
       pd_isna = sample_isna,
       stack_left = 900,
       open_w = (\<lambda>path fs. None),
       json_dump = (\<lambda>v. (''[]'', None)),
       format_exc = (\<lambda>e. ''Traceback (most recent call last)''),
       pd_read_json = (\<lambda>path orient. Inl (PyExn ''FileNotFoundError'' ''File does not exist'')),
       df_shape = (\<lambda>df. Inr (PTuple [PInt 0, PInt 0])),
       df_columns = (\<lambda>df. Inr (PList [])) \<rparr>"


definition run_error :: "string \<Rightarrow> files \<Rightarrow> (pyexn + pydict) \<times> files" where
  "run_error code fs =
     (Inr [(PStr ''status'', PStr ''ERROR''), (PStr ''error_type'', PStr ''RUNTIME'')], fs)"

definition run_number :: "string \<Rightarrow> files \<Rightarrow> (pyexn + pydict) \<times> files" where
  "run_number code fs =
     (Inr [(PStr ''status'', PStr ''SUCCESS''), (PStr ''result'', PInt 42)], fs)"

section \<open>The screening filter and the execution gateway\<close>

text \<open>
  \<^verbatim>\<open>run_pandas_code_tool\<close> (server.py, lines 44 to 67) hands its argument to
  \<^verbatim>\<open>core.execution.run_pandas_code\<close>, whose source is not part of the files at hand.
  The docstring of the tool lists the forbidden substrings.
\<close>

definition denylist :: "string list" where
  "denylist =
     [''os.'', ''sys.'', ''subprocess.'',
      ''open('', ''exec('', ''eval('',
      ''import os'', ''import sys'',
      ''document.'', ''window.'', ''XMLHttpRequest'',
      ''fetch('', ''eval('', ''Function('',
      ''script'', ''javascript:'']"

text \<open>Python's \<^verbatim>\<open>d in code\<close> on strings: \<open>d\<close> occurs in \<open>code\<close> as a contiguous run.\<close>

fun starts_with :: "string \<Rightarrow> string \<Rightarrow> bool" where
  "starts_with [] s = True"
| "starts_with (c # p) [] = False"
| "starts_with (c # p) (x # s) = (c = x \<and> starts_with p s)"

fun py_in :: "string \<Rightarrow> string \<Rightarrow> bool" where
  "py_in d [] = (d = [])"
| "py_in d (c # s) = (starts_with d (c # s) \<or> py_in d s)"

datatype screening = Allowed | Rejected string

text \<open>
  Modelled from the spec: the Screening Filter of section 4.1, whose code
  (in \<^verbatim>\<open>core/execution.py\<close>) is missing. The text is rejected if it contains, as a
  literal case-sensitive substring, any entry of the denylist; the reason given is the
  first entry found.
\<close>

definition screen :: "string \<Rightarrow> screening" where
  "screen code =
     (case find (\<lambda>d. py_in d code) denylist of
        Some d \<Rightarrow> Rejected d
      | None \<Rightarrow> Allowed)"

definition screening_rejected :: "string \<Rightarrow> pydict" where
  "screening_rejected reason =
     [(PStr ''status'', PStr ''ERROR''), (PStr ''message'', PStr reason)]"

text \<open>
  Modelled from the spec: the entry point \<^verbatim>\<open>run_code\<close> of sections 2, 4.2 and 7, whose
  code (\<^verbatim>\<open>run_pandas_code\<close> in \<^verbatim>\<open>core/execution.py\<close>) is missing. A submission goes
  through the Screening Filter first; a rejected one is fatal to the call, with no
  execution at all; an allowed one is handed to \<open>execute\<close>. The second component of the
  result lists the texts that were handed to \<open>execute\<close>.
\<close>

definition run_code :: "(string \<Rightarrow> pydict) \<Rightarrow> string \<Rightarrow> pydict \<times> string list" where
  "run_code execute code =
     (case screen code of
        Rejected reason \<Rightarrow> (screening_rejected reason, [])
      | Allowed \<Rightarrow> (execute code, [code]))"

text \<open>\<^verbatim>\<open>run_pandas_code_tool\<close> returns what the entry point returns.\<close>

definition run_pandas_code_tool :: "(string \<Rightarrow> pydict) \<Rightarrow> string \<Rightarrow> pydict \<times> string list" where
  "run_pandas_code_tool execute code = run_code execute code"

section \<open>Properties of the normalizer\<close>

text \<open>The function, class family by class family.\<close>

lemma mjs_primitive:
  "is_primitive v \<Longrightarrow> make_json_serializable isna (Suc d) v = Inr v"
  by simp

lemma mjs_NpScalar:
  "make_json_serializable isna (Suc d) (NpScalar item flt) =
     (case item of
        Inr r \<Rightarrow> Inr r
      | Inl _ \<Rightarrow> (case flt of Inr f \<Rightarrow> Inr (PFloat f) | Inl e \<Rightarrow> Inl e))"
  by (simp add: is_primitive_def)

lemma mjs_PDecimal:
  "make_json_serializable isna (Suc d) (PDecimal s) =
     (case s of Inr t \<Rightarrow> Inr (PStr t) | Inl e \<Rightarrow> Inl e)"
  by (simp add: is_primitive_def)

lemma mjs_PDatetime:
  "make_json_serializable isna (Suc d) (PDatetime isofmt s) =
     (if isna (PDatetime isofmt s) = Inr True then Inr PNone
      else case isofmt of
             Inr t \<Rightarrow> Inr (PStr t)
           | Inl _ \<Rightarrow> (case s of Inr t \<Rightarrow> Inr (PStr t) | Inl e \<Rightarrow> Inl e))"
  by (simp add: is_primitive_def)

lemma mjs_PDict:
  "make_json_serializable isna (Suc d) (PDict kvs) =
     (if isna (PDict kvs) = Inr True then Inr PNone
      else case serialize_items isna d kvs of Inr kvs' \<Rightarrow> Inr (PDict kvs') | Inl e \<Rightarrow> Inl e)"
  by (simp add: is_primitive_def)

lemma mjs_PList:
  "make_json_serializable isna (Suc d) (PList xs) =
     (if isna (PList xs) = Inr True then Inr PNone
      else case serialize_elems isna d xs of Inr ys \<Rightarrow> Inr (PList ys) | Inl e \<Rightarrow> Inl e)"
  by (simp add: is_primitive_def)

lemma mjs_PTuple:
  "make_json_serializable isna (Suc d) (PTuple xs) =
     (if isna (PTuple xs) = Inr True then Inr PNone
      else case serialize_elems isna d xs of Inr ys \<Rightarrow> Inr (PList ys) | Inl e \<Rightarrow> Inl e)"
  by (simp add: is_primitive_def)

lemma mjs_PSet:
  "make_json_serializable isna (Suc d) (PSet xs) =
     (if isna (PSet xs) = Inr True then Inr PNone
      else case serialize_elems isna d xs of Inr ys \<Rightarrow> Inr (PList ys) | Inl e \<Rightarrow> Inl e)"
  by (simp add: is_primitive_def)

lemma mjs_PObj:
  "make_json_serializable isna (Suc d) (PObj tolist s) =
     (if isna (PObj tolist s) = Inr True then Inr PNone
      else case tolist of
             Some (Inr l) \<Rightarrow>
               (case make_json_serializable isna d l of
                  Inr r \<Rightarrow> Inr r
                | Inl _ \<Rightarrow> Inr (str_or_none s))
           | _ \<Rightarrow> Inr (str_or_none s))"
  by (simp add: is_primitive_def)

lemmas mjs_simps =
  mjs_NpScalar mjs_PDecimal mjs_PDatetime mjs_PDict mjs_PList mjs_PTuple mjs_PSet mjs_PObj

declare make_json_serializable.simps(2) [simp del]


subsection \<open>Returning and raising\<close>


lemma primitive_normalized: "is_primitive v \<Longrightarrow> normalized v"
  by (cases v) (simp_all add: is_primitive_def)










subsection \<open>Shapes of the output\<close>

lemma elems_normalized:
  assumes "\<And>v y. plain v \<Longrightarrow> make_json_serializable isna d v = Inr y \<Longrightarrow> normalized y"
  shows "plain_elems xs \<Longrightarrow> serialize_elems isna d xs = Inr ys \<Longrightarrow> normalized_elems ys"
proof (induction xs arbitrary: ys)
  case Nil
  then show ?case by simp
next
  case (Cons x xs)
  then show ?case using assms [of x]
    by (auto split: sum.splits)
qed

lemma items_normalized:
  assumes "\<And>v y. plain v \<Longrightarrow> make_json_serializable isna d v = Inr y \<Longrightarrow> normalized y"
  shows "plain_items kvs \<Longrightarrow> serialize_items isna d kvs = Inr kvs' \<Longrightarrow> normalized_items kvs'"
proof (induction kvs arbitrary: kvs')
  case Nil
  then show ?case by simp
next
  case (Cons kv kvs)
  obtain k v where kv: "kv = (k, v)" by (cases kv)
  with Cons show ?case using assms [of v]
    by (auto split: sum.splits)
qed

lemma plain_normalized:
  "plain v \<Longrightarrow> make_json_serializable isna d v = Inr y \<Longrightarrow> normalized y"
proof (induction d arbitrary: v y)
  case 0
  then show ?case by simp
next
  case (Suc d)
  note elems = elems_normalized [of isna d, OF Suc.IH]
  note items = items_normalized [of isna d, OF Suc.IH]
  show ?case
  proof (cases v)
    case (PDict kvs)
    with Suc.prems items [where kvs = kvs] show ?thesis
      by (auto simp: mjs_PDict split: if_splits sum.splits)
  next
    case (PList xs)
    with Suc.prems elems [where xs = xs] show ?thesis
      by (auto simp: mjs_PList split: if_splits sum.splits)
  next
    case (PTuple xs)
    with Suc.prems elems [where xs = xs] show ?thesis
      by (auto simp: mjs_PTuple split: if_splits sum.splits)
  next
    case (PSet xs)
    with Suc.prems elems [where xs = xs] show ?thesis
      by (auto simp: mjs_PSet split: if_splits sum.splits)
  next
    case (PObj tolist s)
    with Suc.prems Suc.IH show ?thesis
      by (auto simp: mjs_PObj str_or_none_def split: if_splits sum.splits option.splits)
  next
    case (NpScalar item flt)
    with Suc.prems show ?thesis
      by (auto simp: mjs_NpScalar primitive_normalized split: sum.splits)
  next
    case (PDecimal s)
    with Suc.prems show ?thesis by (auto simp: mjs_PDecimal split: sum.splits)
  next
    case (PDatetime isofmt s)
    with Suc.prems show ?thesis by (auto simp: mjs_PDatetime split: if_splits sum.splits)
  qed (use Suc.prems in \<open>auto simp: mjs_primitive is_primitive_def\<close>)
qed

lemma items_keys: "serialize_items isna d kvs = Inr kvs' \<Longrightarrow> map fst kvs' = map fst kvs"
proof (induction kvs arbitrary: kvs')
  case Nil
  then show ?case by simp
next
  case (Cons kv kvs)
  obtain k v where kv: "kv = (k, v)" by (cases kv)
  with Cons show ?case by (auto split: sum.splits)
qed

text \<open>
  C2, as stated, fails: the keys of a mapping are not made strings. The mapping
  \<^verbatim>\<open>{1: 'a'}\<close> (\<^verbatim>\<open>DataFrame.to_dict(orient='index')\<close> gives such keys) comes out as it
  is, and is no NormalizedValue.
\<close>

theorem integer_key_kept:
  "make_json_serializable sample_isna 2 (PDict [(PInt 1, PStr ''a'')]) =
     Inr (PDict [(PInt 1, PStr ''a'')])
   \<and> \<not> normalized (PDict [(PInt 1, PStr ''a'')])"
  by (simp add: numeral_2_eq_2 mjs_PDict mjs_primitive is_primitive_def NaT_def NA_def)

text \<open>
  C2, amended. Whenever the function returns, on an input in which every mapping key is
  a string and every numeric-library scalar has an \<^verbatim>\<open>item()\<close> that returns a native
  primitive, the output is at every depth null, a boolean, a number, a string, a list or
  a mapping with string keys. The keys of a mapping are never converted: they come out
  as they went in, in insertion order.
\<close>

theorem output_shapes:
  "(plain v \<and> make_json_serializable isna d v = Inr y \<longrightarrow> normalized y)
   \<and> (make_json_serializable isna d (PDict kvs) = Inr (PDict kvs') \<longrightarrow>
        map fst kvs' = map fst kvs)"
proof -
  have "map fst kvs' = map fst kvs"
    if "make_json_serializable isna d (PDict kvs) = Inr (PDict kvs')"
  proof (cases d)
    case 0
    with that show ?thesis by simp
  next
    case (Suc d')
    with that show ?thesis
      by (auto simp: mjs_PDict items_keys split: if_splits sum.splits)
  qed
  then show ?thesis using plain_normalized by blast
qed

theorem output_shapes_witness:
  "plain (PDict [(PStr ''a'', PList [NpScalar (Inr (PInt 7)) (Inr (FNum 7 0)), decimal_12_345])])
   \<and> make_json_serializable sample_isna 3
        (PDict [(PStr ''a'', PList [NpScalar (Inr (PInt 7)) (Inr (FNum 7 0)), decimal_12_345])]) =
      Inr (PDict [(PStr ''a'', PList [PInt 7, PStr ''12.345''])])
   \<and> normalized (PDict [(PStr ''a'', PList [PInt 7, PStr ''12.345''])])
   \<and> map fst [(PStr ''a'', PList [PInt 7, PStr ''12.345''])] =
      map fst [(PStr ''a'', PList [NpScalar (Inr (PInt 7)) (Inr (FNum 7 0)), decimal_12_345])]"
  using output_shapes
    [of "PDict [(PStr ''a'', PList [NpScalar (Inr (PInt 7)) (Inr (FNum 7 0)), decimal_12_345])]"
        sample_isna 3 "PDict [(PStr ''a'', PList [PInt 7, PStr ''12.345''])]"
        "[(PStr ''a'', PList [NpScalar (Inr (PInt 7)) (Inr (FNum 7 0)), decimal_12_345])]"
        "[(PStr ''a'', PList [PInt 7, PStr ''12.345''])]"]
  by (simp add: eval_nat_numeral mjs_simps decimal_12_345_def is_primitive_def NaT_def NA_def)

subsection \<open>Idempotence\<close>







subsection \<open>The rules for particular classes\<close>

text \<open>
  C6. A \<^verbatim>\<open>Decimal\<close> normalizes to the string \<^verbatim>\<open>str\<close> gives for it, whatever the
  missing-value test says, and never to a float; \<^verbatim>\<open>Decimal("12.345")\<close> normalizes to the
  string \<^verbatim>\<open>12.345\<close>.
\<close>

theorem decimal_to_string:
  "make_json_serializable isna (Suc d) (PDecimal (Inr s)) = Inr (PStr s)
   \<and> (\<forall>f. make_json_serializable isna (Suc d) (PDecimal (Inr s)) \<noteq> Inr (PFloat f))
   \<and> make_json_serializable isna (Suc d) decimal_12_345 = Inr (PStr ''12.345'')"
  by (simp add: mjs_PDecimal decimal_12_345_def)

text \<open>
  C7. A value for which the missing-value test holds, and which is not a primitive, a
  numeric-library scalar or a \<^verbatim>\<open>Decimal\<close> (the rules that come first), normalizes to
  null, also when it is a date/time-like value such as \<^verbatim>\<open>NaT\<close>.
\<close>

theorem missing_marker_to_null:
  assumes "isna v = Inr True" and "\<not> is_primitive v"
    and "\<forall>item flt. v \<noteq> NpScalar item flt" and "\<forall>s. v \<noteq> PDecimal s"
  shows "make_json_serializable isna (Suc d) v = Inr PNone"
  using assms by (cases v) (simp_all add: mjs_simps is_primitive_def)

theorem missing_marker_to_null_witness:
  "sample_isna NaT = Inr True \<and> \<not> is_primitive NaT
   \<and> (\<exists>isofmt s. NaT = PDatetime isofmt s)
   \<and> make_json_serializable sample_isna (Suc 0) NaT = Inr PNone"
  using missing_marker_to_null [of sample_isna NaT 0]
  by (simp add: NaT_def NA_def is_primitive_def)

text \<open>
  C8. A date/time-like value for which the missing-value test does not hold normalizes
  to the string \<^verbatim>\<open>isoformat()\<close> returns; if \<^verbatim>\<open>isoformat()\<close> raises, to the string
  \<^verbatim>\<open>str\<close> returns (and if that raises too, the exception comes out). The date
  2024-01-15 normalizes to the string \<^verbatim>\<open>2024-01-15\<close>.
\<close>

theorem datetime_to_iso:
  assumes "isna (PDatetime isofmt s) \<noteq> Inr True"
  shows "make_json_serializable isna (Suc d) (PDatetime isofmt s) =
           (case isofmt of
              Inr t \<Rightarrow> Inr (PStr t)
            | Inl _ \<Rightarrow> (case s of Inr t \<Rightarrow> Inr (PStr t) | Inl e \<Rightarrow> Inl e))"
  using assms by (simp add: mjs_PDatetime)

theorem datetime_to_iso_witness:
  "sample_isna date_2024_01_15 \<noteq> Inr True
   \<and> make_json_serializable sample_isna (Suc 0) date_2024_01_15 = Inr (PStr ''2024-01-15'')"
  using datetime_to_iso [of sample_isna "Inr ''2024-01-15''" "Inr ''2024-01-15''" 0]
  by (simp add: date_2024_01_15_def NaT_def NA_def)

text \<open>
  C10. A native float NaN is returned unchanged, as a float, whatever the missing-value
  test says of it (the sample test says it is missing): the rule for primitives comes
  first, and returns every primitive as it is.
\<close>

theorem native_nan_unchanged:
  "make_json_serializable isna (Suc d) (PFloat FNaN) = Inr (PFloat FNaN)
   \<and> sample_isna (PFloat FNaN) = Inr True
   \<and> make_json_serializable sample_isna (Suc d) (PFloat FNaN) = Inr (PFloat FNaN)
   \<and> (is_primitive v \<longrightarrow> make_json_serializable isna (Suc d) v = Inr v)"
  by (simp add: mjs_primitive is_primitive_def)

theorem native_nan_unchanged_witness:
  "is_primitive (PFloat FNaN)
   \<and> make_json_serializable sample_isna (Suc 0) (PFloat FNaN) = Inr (PFloat FNaN)"
  using native_nan_unchanged [of sample_isna 0 "PFloat FNaN"]
  by (simp add: is_primitive_def)

section \<open>Properties of the tools\<close>



text \<open>
  C9. When \<^verbatim>\<open>run_pandas_code\<close> returns a response whose status is \<^verbatim>\<open>ERROR\<close>,
  \<^verbatim>\<open>dataframe_to_json_tool\<close> returns that response unchanged. When it returns another
  response and the value under \<^verbatim>\<open>result\<close> is not a data frame, the tool returns status
  \<^verbatim>\<open>ERROR\<close> with the message \<^verbatim>\<open>Expected a pandas.DataFrame in 'result'\<close>. In both cases
  the files are as \<^verbatim>\<open>run_pandas_code\<close> left them: the tool writes none.
\<close>

theorem non_dataframe_result:
  assumes "run_pandas_code E code fs = (Inr result, fs1)"
  shows "(dict_get result ''status'' = PStr ''ERROR'' \<longrightarrow>
            dataframe_to_json_tool E code output_path orient fs = (Inr result, fs1))
       \<and> (dict_get result ''status'' \<noteq> PStr ''ERROR''
            \<and> \<not> is_dataframe E (dict_get result ''result'') \<longrightarrow>
            dataframe_to_json_tool E code output_path orient fs = (Inr not_a_dataframe, fs1)
            \<and> dict_get not_a_dataframe ''status'' = PStr ''ERROR'')"
  using assms
  by (simp add: dataframe_to_json_tool_def dataframe_to_json_body_def not_a_dataframe_def
      dict_get_def)

theorem non_dataframe_result_witness:
  "dataframe_to_json_tool (sample_env run_error) ''result = df.nosuch'' ''out.json'' ''records''
       Map.empty =
     (Inr [(PStr ''status'', PStr ''ERROR''), (PStr ''error_type'', PStr ''RUNTIME'')], Map.empty)
   \<and> \<not> is_dataframe (sample_env run_number) (PInt 42)
   \<and> dataframe_to_json_tool (sample_env run_number) ''result = 42'' ''out.json'' ''records''
       Map.empty = (Inr not_a_dataframe, Map.empty)"
  using non_dataframe_result [of "sample_env run_error" "''result = df.nosuch''" Map.empty
      "[(PStr ''status'', PStr ''ERROR''), (PStr ''error_type'', PStr ''RUNTIME'')]" Map.empty
      "''out.json''" "''records''"]
    non_dataframe_result [of "sample_env run_number" "''result = 42''" Map.empty
      "[(PStr ''status'', PStr ''SUCCESS''), (PStr ''result'', PInt 42)]" Map.empty
      "''out.json''" "''records''"]
  by (simp add: sample_env_def run_error_def run_number_def dict_get_def)

section \<open>Properties of the screening filter\<close>

lemma starts_with_iff: "starts_with d s \<longleftrightarrow> (\<exists>q. s = d @ q)"
  by (induction d s rule: starts_with.induct) auto

lemma py_in_iff: "py_in d s \<longleftrightarrow> (\<exists>p q. s = p @ d @ q)"
proof (induction s)
  case Nil
  then show ?case by auto
next
  case (Cons c s)
  show ?case
  proof
    assume "py_in d (c # s)"
    then consider "starts_with d (c # s)" | "py_in d s" by auto
    then show "\<exists>p q. c # s = p @ d @ q"
    proof cases
      case 1
      then obtain q where "c # s = d @ q" by (auto simp: starts_with_iff)
      then have "c # s = [] @ d @ q" by simp
      then show ?thesis by blast
    next
      case 2
      then obtain p q where "s = p @ d @ q" using Cons.IH by blast
      then have "c # s = (c # p) @ d @ q" by simp
      then show ?thesis by blast
    qed
  next
    assume "\<exists>p q. c # s = p @ d @ q"
    then obtain p q where pq: "c # s = p @ d @ q" by blast
    show "py_in d (c # s)"
    proof (cases p)
      case Nil
      with pq have "starts_with d (c # s)" by (auto simp: starts_with_iff)
      then show ?thesis by simp
    next
      case (Cons a p')
      with pq have "s = p' @ d @ q" by simp
      then have "py_in d s" using Cons.IH by blast
      then show ?thesis by simp
    qed
  qed
qed

lemma screen_rejects:
  assumes "d \<in> set denylist" and "py_in d code"
  shows "\<exists>r. screen code = Rejected r \<and> r \<in> set denylist \<and> py_in r code"
proof -
  from assms have "find (\<lambda>d. py_in d code) denylist \<noteq> None"
    by (auto simp: find_None_iff)
  then obtain r where r: "find (\<lambda>d. py_in d code) denylist = Some r" by blast
  then have "r \<in> set denylist \<and> py_in r code"
    by (auto simp: find_Some_iff)
  with r show ?thesis by (simp add: screen_def)
qed

text \<open>
  C4. A code string that contains an entry of the denylist as a literal substring is
  rejected by the screening step, and the call answers with status \<^verbatim>\<open>ERROR\<close> without
  handing anything to the execution step.
\<close>

theorem denylisted_code_never_executed:
  assumes "d \<in> set denylist" and "code = p @ d @ q"
  shows "(\<exists>r. screen code = Rejected r)
         \<and> snd (run_pandas_code_tool execute code) = []
         \<and> dict_get (fst (run_pandas_code_tool execute code)) ''status'' = PStr ''ERROR''"
proof -
  from assms(2) have "py_in d code" by (auto simp: py_in_iff)
  with assms(1) obtain r where "screen code = Rejected r"
    using screen_rejects by blast
  then show ?thesis
    by (simp add: run_pandas_code_tool_def run_code_def screening_rejected_def dict_get_def)
qed

theorem denylisted_code_never_executed_witness:
  "''eval('' \<in> set denylist
   \<and> (\<exists>r. screen ''x = eval(y)'' = Rejected r)
   \<and> snd (run_pandas_code_tool (\<lambda>code. []) ''x = eval(y)'') = []
   \<and> screen ''x = EVAL(y)'' = Allowed"
  using denylisted_code_never_executed
    [of "''eval(''" "''x = eval(y)''" "''x = ''" "''y)''" "\<lambda>code. []"]
  by (simp add: denylist_def screen_def)

end
